theory Spec2Isabelle
  imports Main "HOL-Library.AList"
begin

section \<open>Exceptions and strings\<close>

text \<open>
  The exceptions of \<^verbatim>\<open>addressBook.py\<close> are values. Each constructor carries the text
  that \<^verbatim>\<open>str(e)\<close> yields. \<open>OtherError\<close> stands for an exception of any other
  class that is not a subclass of one of these (its first argument is the class name).
\<close>

datatype exn =
    KeyError string
  | ValueError string
  | IndexError string
  | OverflowError string
  | FileNotFoundError string
  | EOFError string
  | OtherError string string

fun str_exn :: "exn \<Rightarrow> string" where
  "str_exn (KeyError m) = m"
| "str_exn (ValueError m) = m"
| "str_exn (IndexError m) = m"
| "str_exn (OverflowError m) = m"
| "str_exn (FileNotFoundError m) = m"
| "str_exn (EOFError m) = m"
| "str_exn (OtherError c m) = m"

text \<open>
  A Python \<^verbatim>\<open>str\<close> is modelled as a \<open>string\<close> whose characters are the code points
  below 256. On that range \<^verbatim>\<open>str.isspace\<close> holds for 9..13, 28..32, 133 and 160, the
  class \<^verbatim>\<open>\d\<close> is \<^verbatim>\<open>0\<close>..\<^verbatim>\<open>9\<close>, and \<^verbatim>\<open>str.lower\<close> shifts
  65..90, 192..214 and 216..222 by 32.
\<close>

definition ord :: "char \<Rightarrow> nat" where
  "ord c = of_char c"

definition isspace :: "char \<Rightarrow> bool" where
  "isspace c = ((9 \<le> ord c \<and> ord c \<le> 13) \<or> (28 \<le> ord c \<and> ord c \<le> 32)
                 \<or> ord c = 133 \<or> ord c = 160)"

definition isdigit :: "char \<Rightarrow> bool" where
  "isdigit c = (48 \<le> ord c \<and> ord c \<le> 57)"

definition lower_char :: "char \<Rightarrow> char" where
  "lower_char c =
     (if (65 \<le> ord c \<and> ord c \<le> 90) \<or> (192 \<le> ord c \<and> ord c \<le> 214)
         \<or> (216 \<le> ord c \<and> ord c \<le> 222)
      then char_of (ord c + 32) else c)"

definition lower :: "string \<Rightarrow> string" where
  "lower s = map lower_char s"

definition strip :: "string \<Rightarrow> string" where
  "strip s = rev (dropWhile isspace (rev (dropWhile isspace s)))"

text \<open>
  \<^verbatim>\<open>str.split()\<close> without arguments: the maximal runs of non-whitespace characters.
  \<open>split_from cur s\<close> scans \<open>s\<close> with the token read so far in \<open>cur\<close>.
\<close>

fun split_from :: "string \<Rightarrow> string \<Rightarrow> string list" where
  "split_from cur [] = (if cur = [] then [] else [cur])"
| "split_from cur (c # cs) =
     (if isspace c then (if cur = [] then split_from [] cs else cur # split_from [] cs)
      else split_from (cur @ [c]) cs)"

definition split :: "string \<Rightarrow> string list" where
  "split s = split_from [] s"

text \<open>\<^verbatim>\<open>sep.join(xs)\<close>.\<close>

fun join :: "string \<Rightarrow> string list \<Rightarrow> string" where
  "join sep [] = []"
| "join sep [x] = x"
| "join sep (x # y # ys) = x @ sep @ join sep (y # ys)"

text \<open>Decimal rendering of a natural number, as \<^verbatim>\<open>str(n)\<close> gives it.\<close>

definition digit_char :: "nat \<Rightarrow> char" where
  "digit_char d = char_of (48 + d)"

fun str_nat :: "nat \<Rightarrow> string" where
  "str_nat n = (if n < 10 then [digit_char n] else str_nat (n div 10) @ [digit_char (n mod 10)])"

declare str_nat.simps [simp del]

section \<open>Field value types\<close>

text \<open>
  \<^verbatim>\<open>class Field\<close> holds one attribute \<^verbatim>\<open>value\<close>; \<^verbatim>\<open>Name\<close> and \<^verbatim>\<open>Phone\<close> carry a
  string, \<^verbatim>\<open>Birthday\<close> a date.
\<close>

datatype 'a field = FieldObj (value_of: 'a)

definition Name :: "string \<Rightarrow> exn + string field" where
  "Name v =
     (if strip v = [] then Inl (ValueError ''Name cannot be empty or just whitespace.'')
      else Inr (FieldObj v))"

definition newline :: char where
  "newline = CHR 0x0A"

text \<open>
  \<^verbatim>\<open>Phone.validate\<close> is \<^verbatim>\<open>bool(re.match(r'^\d{10}$', value))\<close>: ten characters of class
  \<^verbatim>\<open>\d\<close> from the start of the string, and then \<^verbatim>\<open>$\<close>, which Python's \<^verbatim>\<open>re\<close>
  matches at the end of the string and also just before a newline that ends the string.
  The decimal digits beyond code point 255, which \<^verbatim>\<open>\d\<close> accepts too, are not among
  the characters of \<open>string\<close>.
\<close>

definition validate :: "string \<Rightarrow> bool" where
  "validate v =
     (10 \<le> length v \<and> list_all isdigit (take 10 v)
      \<and> (drop 10 v = [] \<or> drop 10 v = [newline]))"

definition Phone :: "string \<Rightarrow> exn + string field" where
  "Phone v =
     (if \<not> validate v
      then Inl (ValueError (''Invalid phone number: '' @ v @ ''. It must contain exactly 10 digits.''))
      else Inr (FieldObj v))"

text \<open>The strings the specification calls valid phones: exactly ten decimal digits.\<close>

definition ten_digits :: "string \<Rightarrow> bool" where
  "ten_digits v = (length v = 10 \<and> list_all isdigit v)"

section \<open>Dates\<close>

text \<open>
  \<^verbatim>\<open>datetime.date\<close>: a year in 1..9999, a month and a day of that month. A birthday is
  parsed by \<^verbatim>\<open>strptime\<close> with no time fields, so its \<^verbatim>\<open>datetime\<close> is a date at
  midnight and only the date part is kept.
\<close>

record date =
  year :: nat
  month :: nat
  day :: nat

definition MAXYEAR :: nat where
  "MAXYEAR = 9999"

definition is_leap :: "nat \<Rightarrow> bool" where
  "is_leap y = (y mod 4 = 0 \<and> (y mod 100 \<noteq> 0 \<or> y mod 400 = 0))"

definition days_in_month :: "nat \<Rightarrow> nat \<Rightarrow> nat" where
  "days_in_month y m =
     (if m = 2 then (if is_leap y then 29 else 28)
      else if m = 4 \<or> m = 6 \<or> m = 9 \<or> m = 11 then 30 else 31)"

text \<open>The checks of the \<^verbatim>\<open>date\<close> constructor, in its order; each failure is a ValueError.\<close>

definition make_date :: "nat \<Rightarrow> nat \<Rightarrow> nat \<Rightarrow> exn + date" where
  "make_date y m d =
     (if \<not> (1 \<le> y \<and> y \<le> MAXYEAR) then Inl (ValueError (''year '' @ str_nat y @ '' is out of range''))
      else if \<not> (1 \<le> m \<and> m \<le> 12) then Inl (ValueError ''month must be in 1..12'')
      else if \<not> (1 \<le> d \<and> d \<le> days_in_month y m) then Inl (ValueError ''day is out of range for month'')
      else Inr \<lparr>year = y, month = m, day = d\<rparr>)"

text \<open>\<^verbatim>\<open>value.replace(year=y)\<close> builds the date anew, with the constructor's checks.\<close>

definition replace_year :: "date \<Rightarrow> nat \<Rightarrow> exn + date" where
  "replace_year t y = make_date y (month t) (day t)"

text \<open>The order \<^verbatim>\<open><=\<close> of dates.\<close>

definition date_le :: "date \<Rightarrow> date \<Rightarrow> bool" where
  "date_le s t =
     (year s < year t \<or> (year s = year t \<and>
        (month s < month t \<or> (month s = month t \<and> day s \<le> day t))))"

text \<open>
  \<^verbatim>\<open>t + timedelta(days=n)\<close>: the date \<open>n\<close> days later, an OverflowError once the year
  would pass \<open>MAXYEAR\<close>.
\<close>

definition next_day :: "date \<Rightarrow> exn + date" where
  "next_day t =
     (if day t < days_in_month (year t) (month t) then Inr (t\<lparr>day := day t + 1\<rparr>)
      else if month t < 12 then Inr \<lparr>year = year t, month = month t + 1, day = 1\<rparr>
      else if year t < MAXYEAR then Inr \<lparr>year = year t + 1, month = 1, day = 1\<rparr>
      else Inl (OverflowError ''date value out of range''))"

fun add_days :: "date \<Rightarrow> nat \<Rightarrow> exn + date" where
  "add_days t 0 = Inr t"
| "add_days t (Suc n) = (case next_day t of Inl e \<Rightarrow> Inl e | Inr t' \<Rightarrow> add_days t' n)"

text \<open>
  \<^verbatim>\<open>datetime.strptime(value, "%d.%m.%Y")\<close>. The whole string has to match: a day field
  (\<^verbatim>\<open>01\<close>..\<^verbatim>\<open>31\<close>, \<^verbatim>\<open>1\<close>..\<^verbatim>\<open>9\<close>, or a space and \<^verbatim>\<open>1\<close>..\<^verbatim>\<open>9\<close>), a dot, a
  month field (\<^verbatim>\<open>01\<close>..\<^verbatim>\<open>12\<close> or \<^verbatim>\<open>1\<close>..\<^verbatim>\<open>9\<close>), a dot and four digits of year; the
  three numbers then go through the date constructor. Every failure is a ValueError, whose
  text \<^verbatim>\<open>Birthday\<close> discards: \<open>None\<close> stands for it.
\<close>

definition digits_value :: "string \<Rightarrow> nat" where
  "digits_value s = foldl (\<lambda>n c. 10 * n + (ord c - 48)) 0 s"

fun split_on_from :: "char \<Rightarrow> string \<Rightarrow> string \<Rightarrow> string list" where
  "split_on_from sep cur [] = [cur]"
| "split_on_from sep cur (c # cs) =
     (if c = sep then cur # split_on_from sep [] cs else split_on_from sep (cur @ [c]) cs)"

definition two_digit_field :: "nat \<Rightarrow> string \<Rightarrow> bool" where
  "two_digit_field hi s =
     (list_all isdigit s \<and> (length s = 1 \<or> length s = 2)
      \<and> 1 \<le> digits_value s \<and> digits_value s \<le> hi)"

definition day_field :: "string \<Rightarrow> bool" where
  "day_field s =
     (two_digit_field 31 s \<or> (length s = 2 \<and> hd s = CHR '' '' \<and> two_digit_field 9 (tl s)))"

definition month_field :: "string \<Rightarrow> bool" where
  "month_field s = two_digit_field 12 s"

definition year_field :: "string \<Rightarrow> bool" where
  "year_field s = (length s = 4 \<and> list_all isdigit s)"

definition strptime :: "string \<Rightarrow> date option" where
  "strptime v =
     (case split_on_from CHR ''.'' [] v of
        [d, m, y] \<Rightarrow>
          if day_field d \<and> month_field m \<and> year_field y
          then (case make_date (digits_value y) (digits_value m)
                       (digits_value (dropWhile (\<lambda>c. c = CHR '' '') d)) of
                  Inl e \<Rightarrow> None | Inr t \<Rightarrow> Some t)
          else None
      | _ \<Rightarrow> None)"

definition Birthday :: "string \<Rightarrow> exn + date field" where
  "Birthday v =
     (case strptime v of
        None \<Rightarrow> Inl (ValueError ''Invalid date format. Use DD.MM.YYYY'')
      | Some t \<Rightarrow> Inr (FieldObj t))"

text \<open>
  \<^verbatim>\<open>strftime('%d.%m.%Y')\<close>: day and month with two digits, the year as the C library
  prints it, without padding.
\<close>

definition zero_pad :: "nat \<Rightarrow> nat \<Rightarrow> string" where
  "zero_pad w n = replicate (w - length (str_nat n)) CHR ''0'' @ str_nat n"

definition strftime :: "date \<Rightarrow> string" where
  "strftime t = zero_pad 2 (day t) @ ''.'' @ zero_pad 2 (month t) @ ''.'' @ str_nat (year t)"

section \<open>Record\<close>

record contact =
  name :: "string field"
  phones :: "string field list"
  birthday :: "date field option"

definition Record :: "string \<Rightarrow> exn + contact" where
  "Record n =
     (case Name n of
        Inl e \<Rightarrow> Inl e
      | Inr nm \<Rightarrow> Inr \<lparr>name = nm, phones = [], birthday = None\<rparr>)"

definition add_phone :: "contact \<Rightarrow> string \<Rightarrow> exn + contact" where
  "add_phone r phone =
     (case Phone phone of
        Inl e \<Rightarrow> Inl e
      | Inr p \<Rightarrow> Inr (r\<lparr>phones := phones r @ [p]\<rparr>))"

definition remove_phone :: "contact \<Rightarrow> string \<Rightarrow> contact" where
  "remove_phone r phone = r\<lparr>phones := filter (\<lambda>p. value_of p \<noteq> phone) (phones r)\<rparr>"

text \<open>
  The loop of \<^verbatim>\<open>edit_phone\<close> over \<^verbatim>\<open>enumerate(self.phones)\<close>: at the first entry whose
  value is \<open>old_phone\<close> it builds \<^verbatim>\<open>Phone(new_phone)\<close>, which may raise, assigns it at that
  index and breaks.
\<close>

fun edit_phone_loop ::
  "(nat \<times> string field) list \<Rightarrow> string field list \<Rightarrow> string \<Rightarrow> string \<Rightarrow> exn + string field list"
where
  "edit_phone_loop [] ps old_phone new_phone = Inr ps"
| "edit_phone_loop ((i, phone) # rest) ps old_phone new_phone =
     (if value_of phone = old_phone
      then (case Phone new_phone of Inl e \<Rightarrow> Inl e | Inr p \<Rightarrow> Inr (ps[i := p]))
      else edit_phone_loop rest ps old_phone new_phone)"

definition edit_phone :: "contact \<Rightarrow> string \<Rightarrow> string \<Rightarrow> exn + contact" where
  "edit_phone r old_phone new_phone =
     (case edit_phone_loop (enumerate 0 (phones r)) (phones r) old_phone new_phone of
        Inl e \<Rightarrow> Inl e
      | Inr ps \<Rightarrow> Inr (r\<lparr>phones := ps\<rparr>))"

fun find_phone_loop :: "string field list \<Rightarrow> string \<Rightarrow> string option" where
  "find_phone_loop [] phone = None"
| "find_phone_loop (phone_obj # rest) phone =
     (if value_of phone_obj = phone then Some (value_of phone_obj) else find_phone_loop rest phone)"

definition find_phone :: "contact \<Rightarrow> string \<Rightarrow> string option" where
  "find_phone r phone = find_phone_loop (phones r) phone"

definition Record_add_birthday :: "contact \<Rightarrow> string \<Rightarrow> exn + contact" where
  "Record_add_birthday r b =
     (case Birthday b of
        Inl e \<Rightarrow> Inl e
      | Inr bd \<Rightarrow> Inr (r\<lparr>birthday := Some bd\<rparr>))"

definition Record_str :: "contact \<Rightarrow> string" where
  "Record_str r =
     ''Contact name: '' @ value_of (name r) @ '', phones: ''
       @ join ''; '' (map value_of (phones r)) @ '', birthday: ''
       @ (case birthday r of None \<Rightarrow> ''No birthday'' | Some bd \<Rightarrow> strftime (value_of bd))"

section \<open>AddressBook\<close>

text \<open>
  The \<^verbatim>\<open>data\<close> dict of the \<^verbatim>\<open>UserDict\<close>, in its iteration order: an association list.
  \<^verbatim>\<open>data[k] = v\<close> replaces the value of an existing key in place and puts a new key at
  the end, which is \<open>AList.update\<close>; \<^verbatim>\<open>del data[k]\<close> is \<open>AList.delete\<close>.
\<close>

record book =
  data :: "(string \<times> contact) list"

definition AddressBook :: book where
  "AddressBook = \<lparr>data = []\<rparr>"

definition add_record :: "book \<Rightarrow> contact \<Rightarrow> book" where
  "add_record b r = b\<lparr>data := AList.update (value_of (name r)) r (data b)\<rparr>"

definition find_record :: "book \<Rightarrow> string \<Rightarrow> contact option" where
  "find_record b n = map_of (data b) n"

definition delete :: "book \<Rightarrow> string \<Rightarrow> book" where
  "delete b n = (if n \<in> set (map fst (data b)) then b\<lparr>data := AList.delete n (data b)\<rparr> else b)"

text \<open>
  A record is an object that the dict and the caller of \<^verbatim>\<open>find\<close> share: a method that
  mutates the record found under key \<open>k\<close> changes the value the dict holds under \<open>k\<close>.
\<close>

definition store :: "book \<Rightarrow> string \<Rightarrow> contact \<Rightarrow> book" where
  "store b k r = b\<lparr>data := AList.update k r (data b)\<rparr>"

text \<open>
  The loop of \<^verbatim>\<open>get_upcoming_birthdays\<close> over \<^verbatim>\<open>self.data.values()\<close>, with the date
  \<^verbatim>\<open>datetime.today().date()\<close> as a parameter.
\<close>

fun upcoming_loop :: "date \<Rightarrow> date \<Rightarrow> contact list \<Rightarrow> string list \<Rightarrow> exn + string list" where
  "upcoming_loop today next_week [] upcoming = Inr upcoming"
| "upcoming_loop today next_week (r # rs) upcoming =
     (case birthday r of
        None \<Rightarrow> upcoming_loop today next_week rs upcoming
      | Some bd \<Rightarrow>
          (case replace_year (value_of bd) (year today) of
             Inl e \<Rightarrow> Inl e
           | Inr bday_this_year \<Rightarrow>
               if date_le today bday_this_year \<and> date_le bday_this_year next_week
               then upcoming_loop today next_week rs (upcoming @ [value_of (name r)])
               else upcoming_loop today next_week rs upcoming))"

definition get_upcoming_birthdays :: "date \<Rightarrow> book \<Rightarrow> exn + string list" where
  "get_upcoming_birthdays today b =
     (case add_days today 7 of
        Inl e \<Rightarrow> Inl e
      | Inr next_week \<Rightarrow> upcoming_loop today next_week (map snd (data b)) [])"

section \<open>Persistence\<close>

text \<open>
  The files of the working directory: a path has no file, cannot be opened (with the
  exception \<^verbatim>\<open>open\<close> raises), or holds contents. The \<^verbatim>\<open>pickle\<close> module is a parameter:
  what \<^verbatim>\<open>pickle.dump\<close> writes for a book and what \<^verbatim>\<open>pickle.load\<close> makes of contents.
\<close>

datatype 'b file_state = Absent | Unopenable exn | Contents 'b

record 'b pickle =
  pickle_dump :: "book \<Rightarrow> 'b"
  pickle_load :: "'b \<Rightarrow> exn + book"

definition default_filename :: string where
  "default_filename = ''addressbook.pkl''"

definition save_data :: "'b pickle \<Rightarrow> (string \<Rightarrow> 'b file_state) \<Rightarrow> book \<Rightarrow> string \<Rightarrow> exn + (string \<Rightarrow> 'b file_state)" where
  "save_data P fs b filename =
     (case fs filename of
        Unopenable e \<Rightarrow> Inl e
      | _ \<Rightarrow> Inr (fs(filename := Contents (pickle_dump P b))))"

definition open_rb :: "(string \<Rightarrow> 'b file_state) \<Rightarrow> string \<Rightarrow> exn + 'b" where
  "open_rb fs filename =
     (case fs filename of
        Absent \<Rightarrow> Inl (FileNotFoundError (''[Errno 2] No such file or directory: '' @ filename))
      | Unopenable e \<Rightarrow> Inl e
      | Contents c \<Rightarrow> Inr c)"

definition load_data :: "'b pickle \<Rightarrow> (string \<Rightarrow> 'b file_state) \<Rightarrow> string \<Rightarrow> exn + book" where
  "load_data P fs filename =
     (case (case open_rb fs filename of Inl e \<Rightarrow> Inl e | Inr c \<Rightarrow> pickle_load P c) of
        Inl (FileNotFoundError m) \<Rightarrow> Inr AddressBook
      | Inl e \<Rightarrow> Inl e
      | Inr b \<Rightarrow> Inr b)"

text \<open>\<^verbatim>\<open>except FileNotFoundError\<close> catches this class only.\<close>

fun is_file_not_found :: "exn \<Rightarrow> bool" where
  "is_file_not_found (FileNotFoundError m) = True"
| "is_file_not_found e = False"

text \<open>A path at which \<^verbatim>\<open>open\<close> succeeds for writing.\<close>

fun can_open :: "'b file_state \<Rightarrow> bool" where
  "can_open (Unopenable e) = False"
| "can_open f = True"

section \<open>Command handlers\<close>

text \<open>
  A handler takes the argument list and the book and returns what it returns or raises,
  with the book as the call leaves it. \<open>input_error\<close> is the decorator: it turns a
  KeyError, ValueError or IndexError into the returned text \<^verbatim>\<open>str(e)\<close>.
\<close>

type_synonym handler = "string list \<Rightarrow> book \<Rightarrow> (exn + string) \<times> book"

fun caught :: "exn \<Rightarrow> bool" where
  "caught (KeyError m) = True"
| "caught (ValueError m) = True"
| "caught (IndexError m) = True"
| "caught e = False"

definition input_error :: "handler \<Rightarrow> handler" where
  "input_error func args b =
     (case func args b of
        (Inl e, b') \<Rightarrow> if caught e then (Inr (str_exn e), b') else (Inl e, b')
      | (Inr v, b') \<Rightarrow> (Inr v, b'))"

text \<open>Unpacking a list into \<open>expected\<close> names when it has \<open>got\<close> elements.\<close>

definition unpack_error :: "nat \<Rightarrow> nat \<Rightarrow> exn" where
  "unpack_error expected got =
     (if got < expected
      then ValueError (''not enough values to unpack (expected '' @ str_nat expected
                         @ '', got '' @ str_nat got @ '')'')
      else ValueError (''too many values to unpack (expected '' @ str_nat expected @ '')''))"

text \<open>
  In \<^verbatim>\<open>add_contact\<close> the record is the object the dict holds under \<open>n\<close> on both paths:
  found there, or just stored there by \<^verbatim>\<open>add_record\<close>. A \<^verbatim>\<open>Phone\<close> that fails is raised
  after \<^verbatim>\<open>add_record\<close> has run.
\<close>

definition add_contact_body :: handler where
  "add_contact_body args b =
     (if length args < 2 then (Inl (ValueError ''Please provide both name and phone number.''), b)
      else
        let n = args ! 0; phone = args ! 1 in
        (case (case find_record b n of
                 None \<Rightarrow> (case Record n of
                              Inl e \<Rightarrow> Inl e
                            | Inr r \<Rightarrow> Inr (r, add_record b r, ''Contact added.''))
               | Some r \<Rightarrow> Inr (r, b, ''Contact updated.'')) of
           Inl e \<Rightarrow> (Inl e, b)
         | Inr (r, b1, message) \<Rightarrow>
             (case add_phone r phone of
                Inl e \<Rightarrow> (Inl e, b1)
              | Inr r' \<Rightarrow> (Inr message, store b1 n r'))))"

definition add_contact :: handler where
  "add_contact = input_error add_contact_body"

definition change_contact_body :: handler where
  "change_contact_body args b =
     (case args of
        [n, old_phone, new_phone] \<Rightarrow>
          (case find_record b n of
             Some r \<Rightarrow>
               (case edit_phone r old_phone new_phone of
                  Inl e \<Rightarrow> (Inl e, b)
                | Inr r' \<Rightarrow> (Inr ''Phone updated.'', store b n r'))
           | None \<Rightarrow> (Inr ''Contact not found.'', b))
      | _ \<Rightarrow> (Inl (unpack_error 3 (length args)), b))"

definition change_contact :: handler where
  "change_contact = input_error change_contact_body"

definition show_phone_body :: handler where
  "show_phone_body args b =
     (case args of
        [] \<Rightarrow> (Inl (IndexError ''list index out of range''), b)
      | n # _ \<Rightarrow>
          (case find_record b n of
             Some r \<Rightarrow> (Inr (join ''; '' (map value_of (phones r))), b)
           | None \<Rightarrow> (Inr ''Contact not found.'', b)))"

definition show_phone :: handler where
  "show_phone = input_error show_phone_body"

definition show_all_body :: handler where
  "show_all_body args b =
     (Inr (join [newline]
             (map (\<lambda>r. ''Name: '' @ value_of (name r) @ '', Phones: ''
                          @ join '', '' (map value_of (phones r)))
                  (map snd (data b)))), b)"

definition show_all :: handler where
  "show_all = input_error show_all_body"

definition add_birthday_body :: handler where
  "add_birthday_body args b =
     (case args of
        [n, bday] \<Rightarrow>
          (case find_record b n of
             Some r \<Rightarrow>
               (case Record_add_birthday r bday of
                  Inl e \<Rightarrow> (Inl e, b)
                | Inr r' \<Rightarrow> (Inr ''Birthday added.'', store b n r'))
           | None \<Rightarrow> (Inr ''Contact not found.'', b))
      | _ \<Rightarrow> (Inl (unpack_error 2 (length args)), b))"

definition add_birthday :: handler where
  "add_birthday = input_error add_birthday_body"

definition show_birthday_body :: handler where
  "show_birthday_body args b =
     (case args of
        [] \<Rightarrow> (Inl (IndexError ''list index out of range''), b)
      | n # _ \<Rightarrow>
          (case find_record b n of
             Some r \<Rightarrow>
               (case birthday r of
                  Some bd \<Rightarrow> (Inr (strftime (value_of bd)), b)
                | None \<Rightarrow> (Inr ''Birthday not found.'', b))
           | None \<Rightarrow> (Inr ''Birthday not found.'', b)))"

definition show_birthday :: handler where
  "show_birthday = input_error show_birthday_body"

definition birthdays_body :: "date \<Rightarrow> handler" where
  "birthdays_body today args b =
     (case get_upcoming_birthdays today b of
        Inl e \<Rightarrow> (Inl e, b)
      | Inr upcoming \<Rightarrow>
          (Inr (if upcoming \<noteq> [] then ''Upcoming birthdays: '' @ join '', '' upcoming
                else ''No upcoming birthdays.''), b))"

definition birthdays :: "date \<Rightarrow> handler" where
  "birthdays today = input_error (birthdays_body today)"

section \<open>The read-eval loop\<close>

definition parse_input :: "string \<Rightarrow> exn + string \<times> string list" where
  "parse_input user_input =
     (case split user_input of
        [] \<Rightarrow> Inl (ValueError ''not enough values to unpack (expected at least 1, got 0)'')
      | cmd # args \<Rightarrow> Inr (lower (strip cmd), args))"

text \<open>The branches of \<^verbatim>\<open>main\<close> that print and go on: what is printed, and the book.\<close>

definition handle_command :: "date \<Rightarrow> string \<Rightarrow> handler" where
  "handle_command today command args b =
     (if command = ''hello'' then (Inr ''How can I help you?'', b)
      else if command = ''add'' then add_contact args b
      else if command = ''change'' then change_contact args b
      else if command = ''phone'' then show_phone args b
      else if command = ''all'' then show_all args b
      else if command = ''add-birthday'' then add_birthday args b
      else if command = ''show-birthday'' then show_birthday args b
      else if command = ''birthdays'' then birthdays today args b
      else (Inr ''Invalid command.'', b))"

text \<open>
  The \<^verbatim>\<open>while True\<close> loop of \<^verbatim>\<open>main\<close>, run on the lines that \<^verbatim>\<open>input\<close> will return,
  each with the date of the day it is read. The result is how the loop ended (\<open>Inr ()\<close>
  after \<^verbatim>\<open>break\<close>, \<open>Inl e\<close> when the exception \<open>e\<close> left the loop), the files and the
  lines printed. At the end of the input \<^verbatim>\<open>input\<close> raises EOFError.
\<close>

fun main_loop ::
  "'b pickle \<Rightarrow> (date \<times> string) list \<Rightarrow> book \<Rightarrow> (string \<Rightarrow> 'b file_state) \<Rightarrow> string list
     \<Rightarrow> (exn + unit) \<times> (string \<Rightarrow> 'b file_state) \<times> string list"
where
  "main_loop P [] b fs out = (Inl (EOFError ''EOF when reading a line''), fs, out)"
| "main_loop P ((today, user_input) # rest) b fs out =
     (case parse_input user_input of
        Inl e \<Rightarrow> (Inl e, fs, out)
      | Inr (command, args) \<Rightarrow>
          if command = ''close'' \<or> command = ''exit''
          then (case save_data P fs b default_filename of
                  Inl e \<Rightarrow> (Inl e, fs, out)
                | Inr fs' \<Rightarrow> (Inr (), fs', out @ [''Good bye!'']))
          else (case handle_command today command args b of
                  (Inl e, b') \<Rightarrow> (Inl e, fs, out)
                | (Inr printed, b') \<Rightarrow> main_loop P rest b' fs (out @ [printed])))"

definition main ::
  "'b pickle \<Rightarrow> (string \<Rightarrow> 'b file_state) \<Rightarrow> (date \<times> string) list
     \<Rightarrow> (exn + unit) \<times> (string \<Rightarrow> 'b file_state) \<times> string list"
where
  "main P fs lines =
     (case load_data P fs default_filename of
        Inl e \<Rightarrow> (Inl e, fs, [])
      | Inr b \<Rightarrow> main_loop P lines b fs [''Welcome to the assistant bot!''])"

section \<open>Invariant and reachable books\<close>

text \<open>Keys are unique, and every key is the name of the record stored under it.\<close>

definition book_inv :: "book \<Rightarrow> bool" where
  "book_inv b =
     (distinct (map fst (data b)) \<and> list_all (\<lambda>(k, r). value_of (name r) = k) (data b))"

text \<open>The wrapped handlers that the loop dispatches to, with their command words.\<close>

definition handlers :: "date \<Rightarrow> (string \<times> handler \<times> handler) list" where
  "handlers today =
     [(''add'', add_contact_body, add_contact),
      (''change'', change_contact_body, change_contact),
      (''phone'', show_phone_body, show_phone),
      (''all'', show_all_body, show_all),
      (''add-birthday'', add_birthday_body, add_birthday),
      (''show-birthday'', show_birthday_body, show_birthday),
      (''birthdays'', birthdays_body today, birthdays today)]"

text \<open>
  One operation on the book: \<^verbatim>\<open>add_record\<close>, \<^verbatim>\<open>find\<close>, \<^verbatim>\<open>delete\<close> or a call of a
  wrapped handler. \<^verbatim>\<open>find\<close> changes nothing, but hands out the record, which the methods
  of \<^verbatim>\<open>Record\<close> then mutate inside the book. The reachable books are those that
  operations build from the empty book.
\<close>

inductive mutated :: "contact \<Rightarrow> contact \<Rightarrow> bool" where
  mutated_add_phone: "add_phone r p = Inr r' \<Longrightarrow> mutated r r'"
| mutated_remove_phone: "mutated r (remove_phone r p)"
| mutated_edit_phone: "edit_phone r old_phone new_phone = Inr r' \<Longrightarrow> mutated r r'"
| mutated_add_birthday: "Record_add_birthday r bd = Inr r' \<Longrightarrow> mutated r r'"

inductive step :: "book \<Rightarrow> book \<Rightarrow> bool" where
  step_add_record: "step b (add_record b r)"
| step_find: "find_record b n = found \<Longrightarrow> step b b"
| step_find_mutate: "find_record b n = Some r \<Longrightarrow> mutated r r' \<Longrightarrow> step b (store b n r')"
| step_delete: "step b (delete b n)"
| step_handler: "(c, body, h) \<in> set (handlers today) \<Longrightarrow> step b (snd (h args b))"

definition reachable :: "book \<Rightarrow> bool" where
  "reachable b = rtranclp step AddressBook b"

section \<open>Predicates of the specification\<close>

text \<open>
  The month and day of the record's birthday exist in year \<open>y\<close> (a record with no
  birthday passes), and: the birthday moved into the year of \<open>today\<close> lies between
  \<open>today\<close> and \<open>next_week\<close>, both included.
\<close>

definition birthday_exists_in_year :: "nat \<Rightarrow> contact \<Rightarrow> bool" where
  "birthday_exists_in_year y r =
     (case birthday r of
        None \<Rightarrow> True
      | Some bd \<Rightarrow> (case replace_year (value_of bd) y of Inl e \<Rightarrow> False | Inr t \<Rightarrow> True))"

definition birthday_in_window :: "date \<Rightarrow> date \<Rightarrow> contact \<Rightarrow> bool" where
  "birthday_in_window today next_week r =
     (case birthday r of
        None \<Rightarrow> False
      | Some bd \<Rightarrow>
          (case replace_year (value_of bd) (year today) of
             Inl e \<Rightarrow> False
           | Inr t \<Rightarrow> date_le today t \<and> date_le t next_week))"

section \<open>Properties of the field types\<close>

lemma validate_iff:
  "validate v \<longleftrightarrow> ten_digits v \<or> (\<exists>d. v = d @ [newline] \<and> ten_digits d)"
proof
  assume h: "validate v"
  show "ten_digits v \<or> (\<exists>d. v = d @ [newline] \<and> ten_digits d)"
  proof (cases "drop 10 v = []")
    case True
    with h show ?thesis by (simp add: validate_def ten_digits_def)
  next
    case False
    with h have d: "drop 10 v = [newline]" by (simp add: validate_def)
    have "v = take 10 v @ drop 10 v" by simp
    with d have "v = take 10 v @ [newline]" by simp
    moreover from h have "ten_digits (take 10 v)"
      by (simp add: validate_def ten_digits_def)
    ultimately show ?thesis by blast
  qed
next
  assume "ten_digits v \<or> (\<exists>d. v = d @ [newline] \<and> ten_digits d)"
  then show "validate v"
    by (auto simp: validate_def ten_digits_def)
qed

lemma Phone_ten_digits: "ten_digits v \<Longrightarrow> Phone v = Inr (FieldObj v)"
  by (simp add: Phone_def validate_iff)

lemma Phone_Inr_value: "Phone v = Inr p \<Longrightarrow> p = FieldObj v"
  by (auto simp: Phone_def split: if_splits)

lemma Phone_cases:
  "Phone v =
     (if ten_digits v \<or> (\<exists>d. v = d @ [newline] \<and> ten_digits d) then Inr (FieldObj v)
      else Inl (ValueError (''Invalid phone number: '' @ v @ ''. It must contain exactly 10 digits.'')))"
  by (simp add: Phone_def validate_iff)

text \<open>
  C1. \<^verbatim>\<open>Phone\<close> should reject every string that is not exactly ten decimal digits. The
  constructor accepts the eleven-character string made of ten digits and a final newline,
  and stores it unchanged.
\<close>

theorem Phone_accepts_trailing_newline:
  "\<not> ten_digits (''1234567890'' @ [newline]) \<and>
   Phone (''1234567890'' @ [newline]) = Inr (FieldObj (''1234567890'' @ [newline]))"
  by (simp add: Phone_def validate_def ten_digits_def isdigit_def ord_def newline_def)

section \<open>Properties of Record\<close>

lemma edit_phone_loop_enumerate:
  "length pre = k \<Longrightarrow>
   edit_phone_loop (enumerate k xs) (pre @ xs) old new =
     (if old \<in> value_of ` set xs
      then (case Phone new of
              Inl e \<Rightarrow> Inl e
            | Inr q \<Rightarrow> Inr (pre @ takeWhile (\<lambda>p. value_of p \<noteq> old) xs
                              @ q # tl (dropWhile (\<lambda>p. value_of p \<noteq> old) xs)))
      else Inr (pre @ xs))"
proof (induction xs arbitrary: k pre)
  case Nil
  then show ?case by simp
next
  case (Cons x xs)
  show ?case
  proof (cases "value_of x = old")
    case True
    from Cons.prems have "(pre @ x # xs)[k := q] = pre @ q # xs" for q
      using list_update_length [of pre x xs q] by simp
    with True show ?thesis
      by (simp split: sum.splits)
  next
    case False
    have "edit_phone_loop (enumerate (Suc k) xs) ((pre @ [x]) @ xs) old new =
            (if old \<in> value_of ` set xs
             then (case Phone new of
                     Inl e \<Rightarrow> Inl e
                   | Inr q \<Rightarrow> Inr ((pre @ [x]) @ takeWhile (\<lambda>p. value_of p \<noteq> old) xs
                              @ q # tl (dropWhile (\<lambda>p. value_of p \<noteq> old) xs)))
             else Inr ((pre @ [x]) @ xs))"
      using Cons.prems by (intro Cons.IH) simp
    with False show ?thesis by (simp split: sum.split)
  qed
qed

lemma edit_phone_absent: "old \<notin> value_of ` set (phones r) \<Longrightarrow> edit_phone r old new = Inr r"
  using edit_phone_loop_enumerate [of "[]" 0 "phones r" old new]
  by (simp add: edit_phone_def)

text \<open>
  C2, as stated: \<^verbatim>\<open>edit_phone\<close> fails whenever the new phone is not a valid ten-digit
  string. It does not when no entry equals the old phone: \<^verbatim>\<open>Phone(new_phone)\<close> is built
  only at a matching entry, so the call returns and the list stays as it was.
\<close>

theorem edit_phone_invalid_new_counterexample:
  "\<not> ten_digits ''abc'' \<and> \<not> validate ''abc'' \<and>
   edit_phone \<lparr>name = FieldObj ''bob'', phones = [FieldObj ''1234567890''], birthday = None\<rparr>
      ''0987654321'' ''abc''
     = Inr \<lparr>name = FieldObj ''bob'', phones = [FieldObj ''1234567890''], birthday = None\<rparr>"
  by (simp add: edit_phone_def validate_def ten_digits_def enumerate_eq_zip)

text \<open>
  C2, amended. When some entry has the value \<open>old\<close>, \<^verbatim>\<open>edit_phone\<close> builds
  \<^verbatim>\<open>Phone(new)\<close>: if that fails the call fails with the same error, otherwise the first
  entry with the value \<open>old\<close> is replaced by the new phone and every other entry stays, in
  its place. When no entry has the value \<open>old\<close> the call returns with the record
  unchanged, whatever \<open>new\<close> is.
\<close>

theorem edit_phone_first_match:
  "edit_phone r old new =
     (if old \<in> value_of ` set (phones r)
      then (case Phone new of
              Inl e \<Rightarrow> Inl e
            | Inr q \<Rightarrow> Inr (r\<lparr>phones := takeWhile (\<lambda>p. value_of p \<noteq> old) (phones r)
                              @ q # tl (dropWhile (\<lambda>p. value_of p \<noteq> old) (phones r))\<rparr>))
      else Inr r)"
  using edit_phone_loop_enumerate [of "[]" 0 "phones r" old new]
  by (simp add: edit_phone_def split: sum.splits)

theorem edit_phone_first_match_witness:
  "edit_phone
     \<lparr>name = FieldObj ''bob'',
      phones = [FieldObj ''1111111111'', FieldObj ''2222222222'', FieldObj ''1111111111''],
      birthday = None\<rparr>
     ''1111111111'' ''3333333333''
   = Inr \<lparr>name = FieldObj ''bob'',
          phones = [FieldObj ''3333333333'', FieldObj ''2222222222'', FieldObj ''1111111111''],
          birthday = None\<rparr>"
  using edit_phone_first_match
    [of "\<lparr>name = FieldObj ''bob'',
          phones = [FieldObj ''1111111111'', FieldObj ''2222222222'', FieldObj ''1111111111''],
          birthday = None\<rparr>" "''1111111111''" "''3333333333''"]
  by (simp add: Phone_def validate_def isdigit_def ord_def)

section \<open>Properties of AddressBook\<close>

lemma upcoming_loop_filter:
  "\<forall>r \<in> set rs. birthday_exists_in_year (year today) r \<Longrightarrow>
   upcoming_loop today next_week rs acc =
     Inr (acc @ map (\<lambda>r. value_of (name r)) (filter (birthday_in_window today next_week) rs))"
proof (induction rs arbitrary: acc)
  case Nil
  then show ?case by simp
next
  case (Cons r rs)
  then show ?case
    by (simp add: birthday_exists_in_year_def birthday_in_window_def
        split: option.splits sum.splits)
qed

text \<open>
  C4, as stated: for every book and every date, \<^verbatim>\<open>get_upcoming_birthdays\<close> returns the
  names in the window. With a birthday on 29 February and a year of \<open>today\<close> that is not
  a leap year, \<^verbatim>\<open>replace(year=today.year)\<close> raises and nothing is returned. The book
  here is the one the handlers build from \<^verbatim>\<open>add bob 1234567890\<close> and
  \<^verbatim>\<open>add-birthday bob 29.02.2024\<close>.
\<close>

theorem get_upcoming_birthdays_leap_day_counterexample:
  "get_upcoming_birthdays \<lparr>year = 2025, month = 2, day = 25\<rparr>
     (snd (add_birthday [''bob'', ''29.02.2024'']
        (snd (add_contact [''bob'', ''1234567890''] AddressBook))))
   = Inl (ValueError ''day is out of range for month'')"
  by code_simp

text \<open>
  C4, amended. When \<open>today\<close> plus seven days is a date \<open>next_week\<close>, and the month and
  day of every birthday in the book exist in the year of \<open>today\<close>,
  \<^verbatim>\<open>get_upcoming_birthdays\<close> returns, in the order of the book, the names of exactly the
  records that have a birthday whose month and day, moved into the year of \<open>today\<close>, lie
  between \<open>today\<close> and \<open>next_week\<close>, both included. A record without a birthday is never
  among them.
\<close>

theorem get_upcoming_birthdays_window:
  assumes "add_days today 7 = Inr next_week"
    and "\<forall>r \<in> set (map snd (data b)). birthday_exists_in_year (year today) r"
  shows "get_upcoming_birthdays today b =
           Inr (map (\<lambda>r. value_of (name r))
                  (filter (birthday_in_window today next_week) (map snd (data b))))"
  using assms upcoming_loop_filter [of "map snd (data b)" today next_week "[]"]
  by (simp add: get_upcoming_birthdays_def)

theorem get_upcoming_birthdays_window_witness:
  "get_upcoming_birthdays \<lparr>year = 2025, month = 12, day = 20\<rparr>
     \<lparr>data = [(''ann'', \<lparr>name = FieldObj ''ann'', phones = [],
                         birthday = Some (FieldObj \<lparr>year = 1990, month = 12, day = 27\<rparr>)\<rparr>),
              (''bob'', \<lparr>name = FieldObj ''bob'', phones = [], birthday = None\<rparr>),
              (''cy'', \<lparr>name = FieldObj ''cy'', phones = [],
                         birthday = Some (FieldObj \<lparr>year = 1990, month = 12, day = 28\<rparr>)\<rparr>),
              (''di'', \<lparr>name = FieldObj ''di'', phones = [],
                         birthday = Some (FieldObj \<lparr>year = 2000, month = 12, day = 20\<rparr>)\<rparr>)]\<rparr>
   = Inr [''ann'', ''di'']"
proof -
  have a: "add_days \<lparr>year = 2025, month = 12, day = 20\<rparr> 7
             = Inr \<lparr>year = 2025, month = 12, day = 27\<rparr>"
    by code_simp
  show ?thesis
    using get_upcoming_birthdays_window [OF a,
      of "\<lparr>data = [(''ann'', \<lparr>name = FieldObj ''ann'', phones = [],
                         birthday = Some (FieldObj \<lparr>year = 1990, month = 12, day = 27\<rparr>)\<rparr>),
              (''bob'', \<lparr>name = FieldObj ''bob'', phones = [], birthday = None\<rparr>),
              (''cy'', \<lparr>name = FieldObj ''cy'', phones = [],
                         birthday = Some (FieldObj \<lparr>year = 1990, month = 12, day = 28\<rparr>)\<rparr>),
              (''di'', \<lparr>name = FieldObj ''di'', phones = [],
                         birthday = Some (FieldObj \<lparr>year = 2000, month = 12, day = 20\<rparr>)\<rparr>)]\<rparr>"]
    by (simp add: birthday_exists_in_year_def birthday_in_window_def replace_year_def make_date_def
        MAXYEAR_def days_in_month_def date_le_def)
qed

section \<open>Properties of persistence\<close>

text \<open>
  C6, as stated: every failure other than a missing file leaves \<^verbatim>\<open>load_data\<close>. The
  \<^verbatim>\<open>try\<close> block holds \<^verbatim>\<open>pickle.load\<close> as well as \<^verbatim>\<open>open\<close>: when the file exists
  and deserialising its contents raises a FileNotFoundError, that error is caught and the
  empty book is returned.
\<close>

theorem load_data_unpickling_file_not_found_counterexample:
  "load_data
     \<lparr>pickle_dump = (\<lambda>b. ''snapshot''),
      pickle_load = (\<lambda>c. Inl (FileNotFoundError ''[Errno 2] No such file or directory: photo.png''))\<rparr>
     (\<lambda>f. Contents ''snapshot'') default_filename
   = Inr AddressBook"
  by (simp add: load_data_def open_rb_def)

text \<open>
  C6, amended. \<^verbatim>\<open>load_data\<close> returns a new empty book when the file does not exist,
  and whenever \<^verbatim>\<open>open\<close> or \<^verbatim>\<open>pickle.load\<close> raises a FileNotFoundError. An
  exception of any other class, from \<^verbatim>\<open>open\<close> or from \<^verbatim>\<open>pickle.load\<close>, leaves
  \<^verbatim>\<open>load_data\<close>; and when \<^verbatim>\<open>pickle.load\<close> returns a book, that book is returned.
\<close>

theorem load_data_catches_file_not_found:
  "(fs filename = Absent \<longrightarrow> load_data P fs filename = Inr AddressBook)
   \<and> (fs filename = Unopenable e \<longrightarrow>
        load_data P fs filename = (if is_file_not_found e then Inr AddressBook else Inl e))
   \<and> (fs filename = Contents c \<and> pickle_load P c = Inl e \<longrightarrow>
        load_data P fs filename = (if is_file_not_found e then Inr AddressBook else Inl e))
   \<and> (fs filename = Contents c \<and> pickle_load P c = Inr b \<longrightarrow> load_data P fs filename = Inr b)"
  by (cases e) (simp_all add: load_data_def open_rb_def)

theorem load_data_catches_file_not_found_witness:
  "load_data \<lparr>pickle_dump = id, pickle_load = Inr\<rparr> (\<lambda>f. Absent) default_filename
     = Inr AddressBook
   \<and> load_data \<lparr>pickle_dump = id, pickle_load = Inr\<rparr>
       (\<lambda>f. Unopenable (OtherError ''PermissionError'' ''[Errno 13] Permission denied''))
       default_filename
     = Inl (OtherError ''PermissionError'' ''[Errno 13] Permission denied'')
   \<and> load_data \<lparr>pickle_dump = id, pickle_load = (\<lambda>c. Inl (EOFError ''Ran out of input''))\<rparr>
       (\<lambda>f. Contents AddressBook) default_filename
     = Inl (EOFError ''Ran out of input'')
   \<and> load_data \<lparr>pickle_dump = id, pickle_load = (\<lambda>c. Inl (FileNotFoundError ''photo.png''))\<rparr>
       (\<lambda>f. Contents AddressBook) default_filename
     = Inr AddressBook
   \<and> load_data \<lparr>pickle_dump = id, pickle_load = Inr\<rparr>
       (\<lambda>f. Contents (add_record AddressBook \<lparr>name = FieldObj ''bob'', phones = [], birthday = None\<rparr>))
       default_filename
     = Inr \<lparr>data = [(''bob'', \<lparr>name = FieldObj ''bob'', phones = [], birthday = None\<rparr>)]\<rparr>"
  using
    load_data_catches_file_not_found
      [where fs = "\<lambda>f. Absent" and filename = default_filename
         and P = "\<lparr>pickle_dump = id, pickle_load = Inr\<rparr>"]
    load_data_catches_file_not_found
      [where fs = "\<lambda>f. Unopenable (OtherError ''PermissionError'' ''[Errno 13] Permission denied'')"
         and filename = default_filename
         and e = "OtherError ''PermissionError'' ''[Errno 13] Permission denied''"
         and P = "\<lparr>pickle_dump = id, pickle_load = Inr\<rparr>"]
    load_data_catches_file_not_found
      [where fs = "\<lambda>f. Contents AddressBook" and filename = default_filename
         and e = "EOFError ''Ran out of input''" and c = AddressBook
         and P = "\<lparr>pickle_dump = id, pickle_load = (\<lambda>c. Inl (EOFError ''Ran out of input''))\<rparr>"]
    load_data_catches_file_not_found
      [where fs = "\<lambda>f. Contents AddressBook" and filename = default_filename
         and e = "FileNotFoundError ''photo.png''" and c = AddressBook
         and P = "\<lparr>pickle_dump = id, pickle_load = (\<lambda>c. Inl (FileNotFoundError ''photo.png''))\<rparr>"]
    load_data_catches_file_not_found
      [where fs = "\<lambda>f. Contents (add_record AddressBook \<lparr>name = FieldObj ''bob'', phones = [], birthday = None\<rparr>)"
         and filename = default_filename
         and c = "add_record AddressBook \<lparr>name = FieldObj ''bob'', phones = [], birthday = None\<rparr>"
         and b = "add_record AddressBook \<lparr>name = FieldObj ''bob'', phones = [], birthday = None\<rparr>"
         and P = "\<lparr>pickle_dump = id, pickle_load = Inr\<rparr>"]
  by (simp add: add_record_def AddressBook_def)

text \<open>
  C7. When the file can be opened for writing and \<^verbatim>\<open>pickle.load\<close> gives back the book
  that \<^verbatim>\<open>pickle.dump\<close> has written, \<^verbatim>\<open>save_data\<close> succeeds, leaves the pickled book
  as the contents of that file, whatever the file held before, and \<^verbatim>\<open>load_data\<close> on the
  file then returns the same book: the same keys in the same order, each with the same
  name, the same list of phones and the same birthday.
\<close>

theorem save_then_load:
  assumes "can_open (fs filename)"
    and "pickle_load P (pickle_dump P b) = Inr b"
  shows "save_data P fs b filename = Inr (fs(filename := Contents (pickle_dump P b)))
       \<and> load_data P (fs(filename := Contents (pickle_dump P b))) filename = Inr b"
  using assms
  by (cases "fs filename") (simp_all add: save_data_def load_data_def open_rb_def)

theorem save_then_load_witness:
  "load_data \<lparr>pickle_dump = id, pickle_load = Inr\<rparr>
     ((\<lambda>f. Absent)(default_filename := Contents AddressBook)) default_filename
     = Inr AddressBook
   \<and> (case save_data \<lparr>pickle_dump = id, pickle_load = Inr\<rparr>
           ((\<lambda>f. Absent)(default_filename := Contents AddressBook))
           \<lparr>data = [(''bob'', \<lparr>name = FieldObj ''bob'', phones = [FieldObj ''1234567890''],
                              birthday = Some (FieldObj \<lparr>year = 1990, month = 12, day = 27\<rparr>)\<rparr>)]\<rparr>
           default_filename of
         Inl e \<Rightarrow> False
       | Inr fs' \<Rightarrow>
           load_data \<lparr>pickle_dump = id, pickle_load = Inr\<rparr> fs' default_filename
             = Inr \<lparr>data = [(''bob'', \<lparr>name = FieldObj ''bob'', phones = [FieldObj ''1234567890''],
                              birthday = Some (FieldObj \<lparr>year = 1990, month = 12, day = 27\<rparr>)\<rparr>)]\<rparr>)"
proof -
  let ?P = "\<lparr>pickle_dump = id, pickle_load = Inr\<rparr> :: book pickle"
  let ?fs = "(\<lambda>f. Absent)(default_filename := Contents AddressBook) :: string \<Rightarrow> book file_state"
  let ?b = "\<lparr>data = [(''bob'', \<lparr>name = FieldObj ''bob'', phones = [FieldObj ''1234567890''],
                              birthday = Some (FieldObj \<lparr>year = 1990, month = 12, day = 27\<rparr>)\<rparr>)]\<rparr>"
  have h1: "can_open (?fs default_filename)" by simp
  have h2: "pickle_load ?P (pickle_dump ?P ?b) = Inr ?b" by simp
  have before: "load_data ?P ?fs default_filename = Inr AddressBook"
    by (simp add: load_data_def open_rb_def)
  from save_then_load [where fs = ?fs and filename = default_filename and P = ?P and b = ?b,
      OF h1 h2] before
  show ?thesis
    by simp
qed


section \<open>Properties of the handlers\<close>

text \<open>
  C3. When the contact \<open>n\<close> exists and none of its phones has the value \<open>old\<close>, the
  change handler leaves the book, and so the record's phone list, as it was and returns
  \<^verbatim>\<open>Phone updated.\<close>, whatever the new phone is.
\<close>

theorem change_contact_absent_old:
  assumes "find_record b n = Some r" and "old \<notin> value_of ` set (phones r)"
  shows "change_contact [n, old, new] b = (Inr ''Phone updated.'', b)"
  using assms
  by (simp add: change_contact_def input_error_def change_contact_body_def edit_phone_absent
      store_def find_record_def AList.update_triv)

theorem change_contact_absent_old_witness:
  "change_contact [''bob'', ''0987654321'', ''abc'']
     \<lparr>data = [(''bob'', \<lparr>name = FieldObj ''bob'', phones = [FieldObj ''1234567890''],
                         birthday = None\<rparr>)]\<rparr>
   = (Inr ''Phone updated.'',
      \<lparr>data = [(''bob'', \<lparr>name = FieldObj ''bob'', phones = [FieldObj ''1234567890''],
                          birthday = None\<rparr>)]\<rparr>)"
  using change_contact_absent_old
    [of "\<lparr>data = [(''bob'', \<lparr>name = FieldObj ''bob'', phones = [FieldObj ''1234567890''],
                         birthday = None\<rparr>)]\<rparr>" "''bob''"
        "\<lparr>name = FieldObj ''bob'', phones = [FieldObj ''1234567890''], birthday = None\<rparr>"
        "''0987654321''" "''abc''"]
  by (simp add: find_record_def)

lemma count_list_distinct: "distinct xs \<Longrightarrow> x \<in> set xs \<Longrightarrow> count_list xs x = 1"
  by (induction xs) auto

lemma find_record_store: "find_record (store b k r) k = Some r"
  by (simp add: find_record_def store_def AList.update_conv')

lemma store_store: "store (store b k r) k r' = store b k r'"
  by (simp add: store_def)

lemma keys_store:
  "map fst (data (store b k r)) =
     (if k \<in> set (map fst (data b)) then map fst (data b) else map fst (data b) @ [k])"
  by (simp add: store_def AList.update_keys)

lemma add_contact_present:
  assumes "find_record b n = Some r" and "ten_digits p"
  shows "add_contact [n, p] b
           = (Inr ''Contact updated.'', store b n (r\<lparr>phones := phones r @ [FieldObj p]\<rparr>))"
  using assms
  by (simp add: add_contact_def input_error_def add_contact_body_def add_phone_def
      Phone_ten_digits)

lemma add_contact_absent:
  assumes "find_record b n = None" and "strip n \<noteq> []" and "ten_digits p"
  shows "add_contact [n, p] b
           = (Inr ''Contact added.'',
              store b n \<lparr>name = FieldObj n, phones = [FieldObj p], birthday = None\<rparr>)"
  using assms
  by (simp add: add_contact_def input_error_def add_contact_body_def add_phone_def
      Phone_ten_digits Record_def Name_def add_record_def store_def)

text \<open>
  C8, as stated, for every name: with the empty name, absent from the book, the first call
  returns the message of the rejected name instead of \<^verbatim>\<open>Contact added.\<close>, and after
  both calls there is no record under that name.
\<close>

theorem add_contact_blank_name_counterexample:
  "find_record AddressBook '''' = None \<and> ten_digits ''1234567890'' \<and> ten_digits ''1234567891''
   \<and> add_contact ['''', ''1234567890''] AddressBook
       = (Inr ''Name cannot be empty or just whitespace.'', AddressBook)
   \<and> find_record (snd (add_contact ['''', ''1234567891'']
                        (snd (add_contact ['''', ''1234567890''] AddressBook)))) '''' = None"
  by code_simp

text \<open>
  C8, amended: the name is not blank, or is already a key of the book. The book's
  association list stands for a dict, so its keys are distinct. Then the first
  \<^verbatim>\<open>add\<close> returns \<^verbatim>\<open>Contact added.\<close> when the name was absent (and
  \<^verbatim>\<open>Contact updated.\<close> when it was present), the second returns
  \<^verbatim>\<open>Contact updated.\<close>, and afterwards the name occurs once among the keys, with a record
  whose phones are those it had before followed by the two new phones.
\<close>

theorem add_contact_twice:
  assumes "distinct (map fst (data b))"
    and "strip n \<noteq> [] \<or> find_record b n \<noteq> None"
    and "ten_digits p1" and "ten_digits p2"
  shows "fst (add_contact [n, p1] b)
           = Inr (if find_record b n = None then ''Contact added.'' else ''Contact updated.'')
       \<and> fst (add_contact [n, p2] (snd (add_contact [n, p1] b))) = Inr ''Contact updated.''
       \<and> count_list (map fst (data (snd (add_contact [n, p2] (snd (add_contact [n, p1] b)))))) n = 1
       \<and> (\<exists>r. find_record (snd (add_contact [n, p2] (snd (add_contact [n, p1] b)))) n = Some r
              \<and> phones r = (case find_record b n of None \<Rightarrow> [] | Some r0 \<Rightarrow> phones r0)
                              @ [FieldObj p1, FieldObj p2])"
proof -
  define old where "old = (case find_record b n of None \<Rightarrow> [] | Some r0 \<Rightarrow> phones r0)"
  obtain r1 where first: "add_contact [n, p1] b
      = (Inr (if find_record b n = None then ''Contact added.'' else ''Contact updated.''),
         store b n r1)"
    and r1: "phones r1 = old @ [FieldObj p1]"
  proof (cases "find_record b n")
    case None
    with assms(2) have "strip n \<noteq> []" by simp
    from add_contact_absent [OF None this assms(3)] None that show ?thesis
      by (simp add: old_def)
  next
    case (Some r0)
    from add_contact_present [OF Some assms(3)] Some that show ?thesis
      by (simp add: old_def)
  qed
  have second: "add_contact [n, p2] (store b n r1)
      = (Inr ''Contact updated.'', store b n (r1\<lparr>phones := phones r1 @ [FieldObj p2]\<rparr>))"
    using add_contact_present [OF find_record_store assms(4)] by (simp add: store_store)
  have "distinct (map fst (data (store b n r)))" and "n \<in> set (map fst (data (store b n r)))" for r
    using assms(1) by (simp_all add: keys_store)
  then have count: "count_list (map fst (data (store b n r))) n = 1" for r
    by (rule count_list_distinct)
  show ?thesis
    unfolding first second snd_conv fst_conv old_def [symmetric]
    using r1 count by (simp add: find_record_store)
qed

theorem add_contact_twice_witness:
  "fst (add_contact [''alice'', ''1234567890''] AddressBook) = Inr ''Contact added.''
   \<and> add_contact [''alice'', ''1234567891''] (snd (add_contact [''alice'', ''1234567890''] AddressBook))
       = (Inr ''Contact updated.'',
          \<lparr>data = [(''alice'', \<lparr>name = FieldObj ''alice'',
                                 phones = [FieldObj ''1234567890'', FieldObj ''1234567891''],
                                 birthday = None\<rparr>)]\<rparr>)"
proof -
  have h1: "distinct (map fst (data AddressBook))" by (simp add: AddressBook_def)
  have h2: "strip ''alice'' \<noteq> [] \<or> find_record AddressBook ''alice'' \<noteq> None" by code_simp
  have h3: "ten_digits ''1234567890''" by code_simp
  have h4: "ten_digits ''1234567891''" by code_simp
  have e: "add_contact [''alice'', ''1234567891''] (snd (add_contact [''alice'', ''1234567890''] AddressBook))
       = (Inr ''Contact updated.'',
          \<lparr>data = [(''alice'', \<lparr>name = FieldObj ''alice'',
                                 phones = [FieldObj ''1234567890'', FieldObj ''1234567891''],
                                 birthday = None\<rparr>)]\<rparr>)"
    by code_simp
  show ?thesis
    using add_contact_twice [OF h1 h2 h3 h4] e
    by (simp add: find_record_def AddressBook_def)
qed

section \<open>Properties of the error boundary and the loop\<close>

lemma handlers_cases:
  assumes "(c, body, h) \<in> set (handlers today)"
  shows "(c = ''add'' \<and> body = add_contact_body \<and> h = add_contact)
    \<or> (c = ''change'' \<and> body = change_contact_body \<and> h = change_contact)
    \<or> (c = ''phone'' \<and> body = show_phone_body \<and> h = show_phone)
    \<or> (c = ''all'' \<and> body = show_all_body \<and> h = show_all)
    \<or> (c = ''add-birthday'' \<and> body = add_birthday_body \<and> h = add_birthday)
    \<or> (c = ''show-birthday'' \<and> body = show_birthday_body \<and> h = show_birthday)
    \<or> (c = ''birthdays'' \<and> body = birthdays_body today \<and> h = birthdays today)"
  using assms unfolding handlers_def
  apply (simp only: list.set insert_iff empty_iff prod.inject)
  apply (elim disjE)
  apply (simp_all only: simp_thms)
  done

lemma handle_command_table:
  "handle_command today ''add'' = add_contact"
  "handle_command today ''change'' = change_contact"
  "handle_command today ''phone'' = show_phone"
  "handle_command today ''all'' = show_all"
  "handle_command today ''add-birthday'' = add_birthday"
  "handle_command today ''show-birthday'' = show_birthday"
  "handle_command today ''birthdays'' = birthdays today"
  by (rule ext, rule ext, simp add: handle_command_def)+

lemma handlers_wrapped:
  assumes "(c, body, h) \<in> set (handlers today)"
  shows "h = input_error body \<and> handle_command today c = h \<and> c \<noteq> ''close'' \<and> c \<noteq> ''exit''"
  using handlers_cases [OF assms]
  by (elim disjE conjE)
    (simp_all add: handle_command_table add_contact_def change_contact_def show_phone_def
      show_all_def add_birthday_def show_birthday_def birthdays_def)

lemma Record_raises: "Record n = Inl e \<Longrightarrow> caught e"
  by (auto simp: Record_def Name_def split: if_splits sum.splits)

lemma add_phone_raises: "add_phone r p = Inl e \<Longrightarrow> caught e"
  by (auto simp: add_phone_def Phone_def split: if_splits sum.splits)

lemma edit_phone_raises: "edit_phone r old new = Inl e \<Longrightarrow> caught e"
  using edit_phone_loop_enumerate [of "[]" 0 "phones r" old new]
  by (auto simp: edit_phone_def Phone_def split: if_splits sum.splits)

lemma Record_add_birthday_raises: "Record_add_birthday r bd = Inl e \<Longrightarrow> caught e"
  by (auto simp: Record_add_birthday_def Birthday_def split: option.splits sum.splits)

lemma upcoming_loop_raises: "upcoming_loop today nw rs acc = Inl e \<Longrightarrow> caught e"
  by (induction rs arbitrary: acc)
    (auto simp: replace_year_def make_date_def split: option.splits sum.splits if_splits)

lemma next_day_raises: "next_day t = Inl e \<Longrightarrow> e = OverflowError ''date value out of range''"
  by (auto simp: next_day_def split: if_splits)

lemma add_days_raises: "add_days t k = Inl e \<Longrightarrow> e = OverflowError ''date value out of range''"
  by (induction k arbitrary: t) (auto split: sum.splits dest: next_day_raises)

lemma add_contact_body_raises: "add_contact_body args b = (Inl e, b') \<Longrightarrow> caught e"
  by (auto simp: add_contact_body_def Let_def
      split: if_splits option.splits sum.splits prod.splits
      dest: Record_raises add_phone_raises)

lemma change_contact_body_raises: "change_contact_body args b = (Inl e, b') \<Longrightarrow> caught e"
  by (auto simp: change_contact_body_def unpack_error_def
      split: if_splits option.splits sum.splits list.splits
      dest: edit_phone_raises)

lemma show_phone_body_raises: "show_phone_body args b = (Inl e, b') \<Longrightarrow> caught e"
  by (auto simp: show_phone_body_def split: option.splits list.splits)

lemma show_all_body_raises: "show_all_body args b = (Inl e, b') \<Longrightarrow> caught e"
  by (simp add: show_all_body_def)

lemma add_birthday_body_raises: "add_birthday_body args b = (Inl e, b') \<Longrightarrow> caught e"
  by (auto simp: add_birthday_body_def unpack_error_def
      split: if_splits option.splits sum.splits list.splits
      dest: Record_add_birthday_raises)

lemma show_birthday_body_raises: "show_birthday_body args b = (Inl e, b') \<Longrightarrow> caught e"
  by (auto simp: show_birthday_body_def split: option.splits list.splits)

lemma birthdays_body_raises:
  "birthdays_body today args b = (Inl e, b')
     \<Longrightarrow> caught e \<or> e = OverflowError ''date value out of range''"
  by (auto simp: birthdays_body_def get_upcoming_birthdays_def
      split: sum.splits dest: upcoming_loop_raises add_days_raises)

lemma handler_body_raises:
  assumes "(c, body, h) \<in> set (handlers today)" and "body args b = (Inl e, b')"
  shows "caught e \<or> (c = ''birthdays'' \<and> e = OverflowError ''date value out of range'')"
  using handlers_cases [OF assms(1)] assms(2)
  by (elim disjE conjE)
    (simp_all add: add_contact_body_raises change_contact_body_raises show_phone_body_raises
      show_all_body_raises add_birthday_body_raises show_birthday_body_raises
      birthdays_body_raises)

text \<open>
  C5. For every wrapped handler, reached by its command word from an input line: when the
  handler's body raises a ValueError (a rejected name, phone or date, too few or too many
  values to unpack, the missing-argument error of \<^verbatim>\<open>add\<close>) or an IndexError (no
  argument at index 0) with message \<open>m\<close>, the wrapped handler returns \<open>m\<close> as its result,
  and the loop prints \<open>m\<close> and goes on with the next line and the book as the handler
  left it.
\<close>

theorem handler_errors_caught:
  assumes "(c, body, h) \<in> set (handlers today)"
    and "parse_input user_input = Inr (c, args)"
    and "body args b = (Inl e, b')"
    and "e = ValueError m \<or> e = IndexError m"
  shows "h args b = (Inr m, b')
       \<and> main_loop P ((today, user_input) # rest) b fs out = main_loop P rest b' fs (out @ [m])"
proof -
  from assms(3,4) have "input_error body args b = (Inr m, b')"
    by (auto simp: input_error_def)
  with handlers_wrapped [OF assms(1)] assms(2) show ?thesis
    by simp
qed

theorem handler_errors_caught_witness:
  "main_loop \<lparr>pickle_dump = id, pickle_load = Inr\<rparr>
     [(\<lparr>year = 2025, month = 2, day = 25\<rparr>, ''add bob 123'')]
     AddressBook (\<lambda>f. Absent) [''Welcome to the assistant bot!'']
   = (Inl (EOFError ''EOF when reading a line''), (\<lambda>f. Absent),
      [''Welcome to the assistant bot!'',
       ''Invalid phone number: 123. It must contain exactly 10 digits.''])"
proof -
  have h1: "(''add'', add_contact_body, add_contact)
              \<in> set (handlers \<lparr>year = 2025, month = 2, day = 25\<rparr>)"
    by (simp add: handlers_def)
  have h2: "parse_input ''add bob 123'' = Inr (''add'', [''bob'', ''123''])"
    by code_simp
  have h3: "add_contact_body [''bob'', ''123''] AddressBook
              = (Inl (ValueError ''Invalid phone number: 123. It must contain exactly 10 digits.''),
                 \<lparr>data = [(''bob'', \<lparr>name = FieldObj ''bob'', phones = [], birthday = None\<rparr>)]\<rparr>)"
    by code_simp
  show ?thesis
    using handler_errors_caught [OF h1 h2 h3, of
        "''Invalid phone number: 123. It must contain exactly 10 digits.''"
        "\<lparr>pickle_dump = id, pickle_load = Inr\<rparr>" "[]" "\<lambda>f. Absent"
        "[''Welcome to the assistant bot!'']"]
    by simp
qed

lemma split_from_blank: "\<forall>c \<in> set s. isspace c \<Longrightarrow> split_from [] s = []"
  by (induction s) simp_all

lemma split_from_nonempty_cur: "cur \<noteq> [] \<Longrightarrow> split_from cur s \<noteq> []"
  by (induction s arbitrary: cur) simp_all

lemma parse_input_raises_iff:
  "(\<exists>e. parse_input user_input = Inl e) \<longleftrightarrow> (\<forall>c \<in> set user_input. isspace c)"
proof -
  have "split_from [] s = [] \<longleftrightarrow> (\<forall>c \<in> set s. isspace c)" for s
    by (induction s) (simp_all add: split_from_nonempty_cur)
  then have "split user_input = [] \<longleftrightarrow> (\<forall>c \<in> set user_input. isspace c)"
    by (simp add: split_def)
  moreover have "(\<exists>e. parse_input user_input = Inl e) \<longleftrightarrow> split user_input = []"
    by (cases "split user_input") (simp_all add: parse_input_def)
  ultimately show ?thesis by simp
qed

text \<open>
  C10. For every input line that is empty or made of whitespace only, \<^verbatim>\<open>parse_input\<close>
  raises the ValueError of unpacking an empty list, and the loop ends with that exception:
  nothing is printed for the line, the remaining lines are not read and no file is written.
\<close>

theorem blank_line_ends_loop:
  assumes "\<forall>c \<in> set user_input. isspace c"
  shows "parse_input user_input
           = Inl (ValueError ''not enough values to unpack (expected at least 1, got 0)'')
       \<and> main_loop P ((today, user_input) # rest) b fs out
           = (Inl (ValueError ''not enough values to unpack (expected at least 1, got 0)''), fs, out)"
  using assms by (simp add: parse_input_def split_def split_from_blank)

theorem blank_line_ends_loop_witness:
  "main_loop \<lparr>pickle_dump = id, pickle_load = Inr\<rparr>
     [(\<lparr>year = 2025, month = 2, day = 25\<rparr>, [CHR '' '', CHR 0x09, CHR '' '']),
      (\<lparr>year = 2025, month = 2, day = 25\<rparr>, ''exit'')]
     AddressBook (\<lambda>f. Absent) [''Welcome to the assistant bot!'']
   = (Inl (ValueError ''not enough values to unpack (expected at least 1, got 0)''),
      (\<lambda>f. Absent), [''Welcome to the assistant bot!''])"
proof -
  have h: "\<forall>c \<in> set [CHR '' '', CHR 0x09, CHR '' '']. isspace c"
    by (simp add: isspace_def ord_def)
  show ?thesis
    using blank_line_ends_loop [OF h, of "\<lparr>pickle_dump = id, pickle_load = Inr\<rparr>"
      "\<lparr>year = 2025, month = 2, day = 25\<rparr>"
      "[(\<lparr>year = 2025, month = 2, day = 25\<rparr>, ''exit'')]" AddressBook "\<lambda>f. Absent"
      "[''Welcome to the assistant bot!'']"]
    by (rule conjunct2)
qed

section \<open>The invariant of the book\<close>

lemma list_all_update:
  "list_all P al \<Longrightarrow> P (k, v) \<Longrightarrow> list_all P (AList.update k v al)"
  by (induction al) auto

lemma book_inv_store: "book_inv b \<Longrightarrow> value_of (name r) = k \<Longrightarrow> book_inv (store b k r)"
  by (simp add: book_inv_def store_def AList.distinct_update list_all_update)

lemma book_inv_add_record: "book_inv b \<Longrightarrow> book_inv (add_record b r)"
  by (simp add: book_inv_def add_record_def AList.distinct_update list_all_update)

lemma list_all_delete: "list_all P al \<Longrightarrow> list_all P (AList.delete k al)"
  by (induction al) auto

lemma book_inv_delete: "book_inv b \<Longrightarrow> book_inv (delete b n)"
  by (simp add: book_inv_def delete_def AList.distinct_delete list_all_delete)

lemma find_record_name: "book_inv b \<Longrightarrow> find_record b n = Some r \<Longrightarrow> value_of (name r) = n"
  by (auto simp: book_inv_def find_record_def list_all_iff dest: map_of_SomeD)

lemma add_phone_name: "add_phone r p = Inr r' \<Longrightarrow> name r' = name r"
  by (auto simp: add_phone_def split: sum.splits)

lemma edit_phone_name: "edit_phone r old new = Inr r' \<Longrightarrow> name r' = name r"
  by (auto simp: edit_phone_def split: sum.splits)

lemma Record_add_birthday_name: "Record_add_birthday r bd = Inr r' \<Longrightarrow> name r' = name r"
  by (auto simp: Record_add_birthday_def split: sum.splits)

lemma Record_name: "Record n = Inr r \<Longrightarrow> value_of (name r) = n"
  by (auto simp: Record_def Name_def split: sum.splits if_splits)

lemma mutated_name: "mutated r r' \<Longrightarrow> name r' = name r"
  by (induction rule: mutated.induct)
    (simp_all add: add_phone_name edit_phone_name Record_add_birthday_name remove_phone_def)

lemma snd_input_error: "snd (input_error func args b) = snd (func args b)"
  by (simp add: input_error_def split: prod.splits sum.splits)

lemma book_inv_add_contact_body: "book_inv b \<Longrightarrow> book_inv (snd (add_contact_body args b))"
  by (auto simp: add_contact_body_def Let_def book_inv_add_record
      split: option.splits sum.splits
      dest!: Record_name add_phone_name
      intro!: book_inv_store book_inv_add_record dest: find_record_name)

lemma book_inv_change_contact_body: "book_inv b \<Longrightarrow> book_inv (snd (change_contact_body args b))"
  by (auto simp: change_contact_body_def
      split: option.splits sum.splits list.splits
      dest!: edit_phone_name intro!: book_inv_store dest: find_record_name)

lemma book_inv_add_birthday_body: "book_inv b \<Longrightarrow> book_inv (snd (add_birthday_body args b))"
  by (auto simp: add_birthday_body_def
      split: option.splits sum.splits list.splits
      dest!: Record_add_birthday_name intro!: book_inv_store dest: find_record_name)

lemma snd_show_phone_body: "snd (show_phone_body args b) = b"
  by (simp add: show_phone_body_def split: list.splits option.splits)

lemma snd_show_all_body: "snd (show_all_body args b) = b"
  by (simp add: show_all_body_def)

lemma snd_show_birthday_body: "snd (show_birthday_body args b) = b"
  by (simp add: show_birthday_body_def split: list.splits option.splits)

lemma snd_birthdays_body: "snd (birthdays_body today args b) = b"
  by (simp add: birthdays_body_def split: sum.splits)

lemma book_inv_handler:
  assumes "(c, body, h) \<in> set (handlers today)" and "book_inv b"
  shows "book_inv (snd (h args b))"
  using handlers_cases [OF assms(1)] assms(2)
  by (elim disjE conjE)
    (simp_all add: add_contact_def change_contact_def show_phone_def show_all_def
      add_birthday_def show_birthday_def birthdays_def snd_input_error
      book_inv_add_contact_body book_inv_change_contact_body book_inv_add_birthday_body
      snd_show_phone_body snd_show_all_body snd_show_birthday_body snd_birthdays_body)

lemma book_inv_step: "step b b' \<Longrightarrow> book_inv b \<Longrightarrow> book_inv b'"
proof (induction rule: step.induct)
  case (step_find_mutate b n r r')
  from step_find_mutate(1,3) have "value_of (name r) = n" by (rule find_record_name [rotated])
  with mutated_name [OF step_find_mutate(2)] have "value_of (name r') = n" by simp
  with step_find_mutate(3) show ?case by (rule book_inv_store)
qed (simp_all add: book_inv_add_record book_inv_delete book_inv_handler)

lemma book_inv_empty: "book_inv AddressBook"
  by (simp add: book_inv_def AddressBook_def)

text \<open>
  C9. The empty book has unique keys, each equal to the name of the record under it; every
  operation (\<^verbatim>\<open>add_record\<close>, \<^verbatim>\<open>find\<close> and the mutation of the record it hands out,
  \<^verbatim>\<open>delete\<close>, each wrapped handler on any arguments) takes a book with this invariant to
  a book with this invariant; and so every reachable book has it.
\<close>

theorem book_inv_reachable:
  "book_inv AddressBook
   \<and> (book_inv b \<and> step b b' \<longrightarrow> book_inv b')
   \<and> (reachable b \<longrightarrow> book_inv b)"
proof (intro conjI impI)
  show "book_inv AddressBook" by (rule book_inv_empty)
  show "book_inv b'" if "book_inv b \<and> step b b'"
    using that book_inv_step by blast
  show "book_inv b" if "reachable b"
    using that unfolding reachable_def
    by (induction rule: rtranclp_induct) (simp_all add: book_inv_empty book_inv_step)
qed

theorem book_inv_reachable_witness:
  "reachable \<lparr>data = [(''bob'', \<lparr>name = FieldObj ''bob'', phones = [FieldObj ''1234567890''],
                               birthday = None\<rparr>)]\<rparr>
   \<and> book_inv \<lparr>data = [(''bob'', \<lparr>name = FieldObj ''bob'', phones = [FieldObj ''1234567890''],
                               birthday = None\<rparr>)]\<rparr>"
proof -
  let ?b = "\<lparr>data = [(''bob'', \<lparr>name = FieldObj ''bob'', phones = [FieldObj ''1234567890''],
                               birthday = None\<rparr>)]\<rparr>"
  have e: "snd (add_contact [''bob'', ''1234567890''] AddressBook) = ?b"
    by code_simp
  have "(''add'', add_contact_body, add_contact) \<in> set (handlers \<lparr>year = 2025, month = 2, day = 25\<rparr>)"
    by (simp add: handlers_def)
  then have "step AddressBook (snd (add_contact [''bob'', ''1234567890''] AddressBook))"
    by (rule step_handler)
  with e have s: "step AddressBook ?b" by simp
  then have r: "reachable ?b" by (simp add: reachable_def)
  from book_inv_reachable [of AddressBook ?b] s have "book_inv ?b" by blast
  moreover from book_inv_reachable [of ?b ?b] r have "book_inv ?b" by blast
  ultimately show ?thesis using r by simp
qed

end
